theory Spec2Isabelle
  imports Complex_Main
begin

section \<open>JavaScript numbers\<close>

text \<open>
  A \<^verbatim>\<open>number\<close> of the source is modelled as an exact real or \<open>NaN\<close>. Arithmetic on
  reals is exact: rounding to binary64, overflow and the two infinities are not
  represented. \<open>NaN\<close> arises where the source reads an array past its end (the read gives
  \<^verbatim>\<open>undefined\<close>, which arithmetic coerces to NaN), takes the square root of a negative
  number, or divides by zero (where JavaScript gives an infinity or NaN, both rendered as
  \<open>NaN\<close> here). Every operator propagates \<open>NaN\<close>; every comparison with \<open>NaN\<close> is false.
\<close>

datatype number = Num real | NaN

instantiation number :: "{plus, minus, times, inverse, ord}"
begin

fun plus_number :: "number \<Rightarrow> number \<Rightarrow> number" where
  "plus_number (Num x) (Num y) = Num (x + y)"
| "plus_number _ _ = NaN"

fun minus_number :: "number \<Rightarrow> number \<Rightarrow> number" where
  "minus_number (Num x) (Num y) = Num (x - y)"
| "minus_number _ _ = NaN"

fun times_number :: "number \<Rightarrow> number \<Rightarrow> number" where
  "times_number (Num x) (Num y) = Num (x * y)"
| "times_number _ _ = NaN"

fun divide_number :: "number \<Rightarrow> number \<Rightarrow> number" where
  "divide_number (Num x) (Num y) = (if y = 0 then NaN else Num (x / y))"
| "divide_number _ _ = NaN"

definition inverse_number :: "number \<Rightarrow> number" where
  "inverse_number x = divide (Num 1) x"

fun less_eq_number :: "number \<Rightarrow> number \<Rightarrow> bool" where
  "less_eq_number (Num x) (Num y) = (x \<le> y)"
| "less_eq_number _ _ = False"

fun less_number :: "number \<Rightarrow> number \<Rightarrow> bool" where
  "less_number (Num x) (Num y) = (x < y)"
| "less_number _ _ = False"

instance ..

end


fun Math_round :: "number \<Rightarrow> number" where
  "Math_round (Num x) = Num (of_int \<lfloor>x + 1/2\<rfloor>)"
| "Math_round NaN = NaN"

fun Math_sqrt :: "number \<Rightarrow> number" where
  "Math_sqrt (Num x) = (if x < 0 then NaN else Num (sqrt x))"
| "Math_sqrt NaN = NaN"




fun Math_max :: "number \<Rightarrow> number \<Rightarrow> number" where
  "Math_max (Num x) (Num y) = Num (max x y)"
| "Math_max _ _ = NaN"

fun Math_min :: "number \<Rightarrow> number \<Rightarrow> number" where
  "Math_min (Num x) (Num y) = Num (min x y)"
| "Math_min _ _ = NaN"

text \<open>
  \<^verbatim>\<open>xs[i]\<close> on a \<^verbatim>\<open>number[]\<close>, used as an operand of arithmetic: past the end of the
  array the value is \<^verbatim>\<open>undefined\<close>, hence NaN.
\<close>

definition idx :: "number list \<Rightarrow> nat \<Rightarrow> number" where
  "idx xs i = (if i < length xs then xs ! i else NaN)"

text \<open>
  Truthiness of the result of a property read that is a number or \<^verbatim>\<open>undefined\<close>
  (\<open>None\<close>): \<^verbatim>\<open>undefined\<close>, zero and NaN are falsy. \<open>or_else\<close> is \<^verbatim>\<open>a || b\<close> on two
  such reads, \<open>or_num\<close> is \<^verbatim>\<open>a || d\<close> with a number on the right.
\<close>

fun truthy :: "number option \<Rightarrow> bool" where
  "truthy None = False"
| "truthy (Some NaN) = False"
| "truthy (Some (Num x)) = (x \<noteq> 0)"

definition or_else :: "number option \<Rightarrow> number option \<Rightarrow> number option" where
  "or_else a b = (if truthy a then a else b)"

definition or_num :: "number option \<Rightarrow> number \<Rightarrow> number" where
  "or_num a d = (case a of None \<Rightarrow> d | Some v \<Rightarrow> if truthy a then v else d)"

datatype error = TypeError

section \<open>Crystal structures (crystal.ts)\<close>

record Lattice =
  matrix :: "number list list"
  a_param :: number
  b_param :: number
  c_param :: number
  alpha_param :: number
  beta_param :: number
  gamma_param :: number

record Site =
  element :: string
  frac_site :: "number list"
  occupancy :: number
  label :: "string option"
  disorder_group :: "string option"
  oxidation_state :: "number option"
  cartesian :: "number list option"

text \<open>
  The optional fields \<^verbatim>\<open>site_properties\<close> and \<^verbatim>\<open>style\<close> of a structure are read by
  none of the functions below and are left to the record's extension.
\<close>

record CrystalStructure =
  lattice :: Lattice
  pbc :: "bool list"
  sites :: "Site list"


section \<open>Periodic geometry (utils/lattice.ts)\<close>


definition minimumImage :: "number list \<Rightarrow> number list" where
  "minimumImage fs = map (\<lambda>f. f - Math_round f) fs"

text \<open>
  \<^verbatim>\<open>latticeMatrix[r][c]\<close> is read for every \<open>r, c < 3\<close> on every call. A missing row is
  \<^verbatim>\<open>undefined\<close> and reading a component of it throws a TypeError; a missing component
  of a row that is there is \<^verbatim>\<open>undefined\<close>, hence NaN.
\<close>

definition periodicDistance ::
  "number list \<Rightarrow> number list \<Rightarrow> number list list \<Rightarrow> error + number" where
  "periodicDistance frac1 frac2 latticeMatrix =
    (let df = [idx frac2 0 - idx frac1 0,
               idx frac2 1 - idx frac1 1,
               idx frac2 2 - idx frac1 2];
         dfWrapped = minimumImage df
     in if length latticeMatrix < 3 then Inl TypeError
        else
          let m = (\<lambda>r c. idx (latticeMatrix ! r) c);
              dr = [idx dfWrapped 0 * m 0 0 + idx dfWrapped 1 * m 1 0 + idx dfWrapped 2 * m 2 0,
                    idx dfWrapped 0 * m 0 1 + idx dfWrapped 1 * m 1 1 + idx dfWrapped 2 * m 2 1,
                    idx dfWrapped 0 * m 0 2 + idx dfWrapped 1 * m 1 2 + idx dfWrapped 2 * m 2 2]
          in Inr (Math_sqrt (idx dr 0 * idx dr 0 + idx dr 1 * idx dr 1 + idx dr 2 * idx dr 2)))"

section \<open>Bonding (utils/bonds.ts)\<close>

text \<open>
  The table of covalent radii, an object literal used as a dictionary. Symbols that name a
  property every object inherits (such as \<^verbatim>\<open>constructor\<close>) are outside this model.
\<close>

definition COVALENT_RADII_entries :: "(string \<times> number) list" where
  "COVALENT_RADII_entries =
    [(''H'', Num 0.32), (''He'', Num 0.46), (''Li'', Num 1.33), (''Be'', Num 1.02),
     (''B'', Num 0.85), (''C'', Num 0.75), (''N'', Num 0.71), (''O'', Num 0.66),
     (''F'', Num 0.57), (''Ne'', Num 0.58), (''Na'', Num 1.55), (''Mg'', Num 1.39),
     (''Al'', Num 1.26), (''Si'', Num 1.16), (''P'', Num 1.11), (''S'', Num 1.03),
     (''Cl'', Num 0.99), (''Ar'', Num 1.07), (''K'', Num 1.96), (''Ca'', Num 1.71),
     (''Sc'', Num 1.48), (''Ti'', Num 1.36), (''V'', Num 1.34), (''Cr'', Num 1.22),
     (''Mn'', Num 1.19), (''Fe'', Num 1.16), (''Co'', Num 1.11), (''Ni'', Num 1.10),
     (''Cu'', Num 1.12), (''Zn'', Num 1.18), (''Ga'', Num 1.24), (''Ge'', Num 1.21),
     (''As'', Num 1.21), (''Se'', Num 1.16), (''Br'', Num 1.14), (''Kr'', Num 1.17)]"

definition COVALENT_RADII :: "string \<rightharpoonup> number" where
  "COVALENT_RADII = map_of COVALENT_RADII_entries"

record Bond =
  atom1 :: nat
  atom2 :: nat
  distance :: number
  cutoff :: number

definition getCovalentRadius :: "string \<Rightarrow> number" where
  "getCovalentRadius e = or_num (COVALENT_RADII e) (Num 1.0)"

text \<open>
  The cutoff of one pair of sites: lines 87 to 103 of the loop body. \<open>overrideHit\<close> is the
  condition \<^verbatim>\<open>pairOverrides && (pairOverrides[pairKey1] || pairOverrides[pairKey2])\<close>;
  an absent \<^verbatim>\<open>pairOverrides\<close> is \<open>None\<close>.
\<close>

definition overrideHit :: "(string \<rightharpoonup> number) option \<Rightarrow> string \<Rightarrow> string \<Rightarrow> bool" where
  "overrideHit pairOverrides pairKey1 pairKey2 =
    (case pairOverrides of
       None \<Rightarrow> False
     | Some po \<Rightarrow> truthy (or_else (po pairKey1) (po pairKey2)))"

definition pairCutoff ::
  "number \<Rightarrow> number \<Rightarrow> number \<Rightarrow> (string \<rightharpoonup> number) option \<Rightarrow> string \<Rightarrow> string \<Rightarrow> number" where
  "pairCutoff scaleFactor minCut maxCut pairOverrides element1 element2 =
    (let cut = minCut;
         pairKey1 = element1 @ ''-'' @ element2;
         pairKey2 = element2 @ ''-'' @ element1
     in if overrideHit pairOverrides pairKey1 pairKey2 then
          (case pairOverrides of
             None \<Rightarrow> cut
           | Some po \<Rightarrow> or_num (or_else (po pairKey1) (po pairKey2)) cut)
        else
          let r1 = or_num (COVALENT_RADII element1) (Num 1.0);
              r2 = or_num (COVALENT_RADII element2) (Num 1.0);
              cut = scaleFactor * (r1 + r2)
          in Math_max minCut (Math_min maxCut cut))"

text \<open>
  One pass of the inner loop body for the pair \<open>(i, j)\<close>: the bonds so far, with the new
  bond pushed when the distance is within the cutoff; the TypeError of
  \<open>periodicDistance\<close> leaves the function.
\<close>

definition bondStep ::
  "CrystalStructure \<Rightarrow> number \<Rightarrow> number \<Rightarrow> number \<Rightarrow> (string \<rightharpoonup> number) option \<Rightarrow>
     nat \<Rightarrow> nat \<Rightarrow> Bond list \<Rightarrow> error + Bond list" where
  "bondStep crystal scaleFactor minCut maxCut pairOverrides i j bonds =
    (let latticeMatrix = matrix (lattice crystal);
         site1 = sites crystal ! i;
         element1 = element site1;
         site2 = sites crystal ! j;
         element2 = element site2;
         cut = pairCutoff scaleFactor minCut maxCut pairOverrides element1 element2
     in case periodicDistance (frac_site site1) (frac_site site2) latticeMatrix of
          Inl e \<Rightarrow> Inl e
        | Inr d \<Rightarrow>
            Inr (if d \<le> cut
                 then bonds @ [\<lparr>atom1 = i, atom2 = j, distance = d, cutoff = cut\<rparr>]
                 else bonds))"

text \<open>The loop over \<open>j\<close>, run on the indices \<open>i + 1, ..., n - 1\<close>, and the loop over \<open>i\<close>.\<close>

fun innerLoop ::
  "CrystalStructure \<Rightarrow> number \<Rightarrow> number \<Rightarrow> number \<Rightarrow> (string \<rightharpoonup> number) option \<Rightarrow>
     nat \<Rightarrow> nat list \<Rightarrow> Bond list \<Rightarrow> error + Bond list" where
  "innerLoop crystal scaleFactor minCut maxCut pairOverrides i [] bonds = Inr bonds"
| "innerLoop crystal scaleFactor minCut maxCut pairOverrides i (j # js) bonds =
    (case bondStep crystal scaleFactor minCut maxCut pairOverrides i j bonds of
       Inl e \<Rightarrow> Inl e
     | Inr bonds' \<Rightarrow> innerLoop crystal scaleFactor minCut maxCut pairOverrides i js bonds')"

fun outerLoop ::
  "CrystalStructure \<Rightarrow> number \<Rightarrow> number \<Rightarrow> number \<Rightarrow> (string \<rightharpoonup> number) option \<Rightarrow>
     nat list \<Rightarrow> Bond list \<Rightarrow> error + Bond list" where
  "outerLoop crystal scaleFactor minCut maxCut pairOverrides [] bonds = Inr bonds"
| "outerLoop crystal scaleFactor minCut maxCut pairOverrides (i # is) bonds =
    (case innerLoop crystal scaleFactor minCut maxCut pairOverrides i
            [i + 1 ..< length (sites crystal)] bonds of
       Inl e \<Rightarrow> Inl e
     | Inr bonds' \<Rightarrow> outerLoop crystal scaleFactor minCut maxCut pairOverrides is bonds')"

definition calculateBonds ::
  "CrystalStructure \<Rightarrow> number \<Rightarrow> number \<Rightarrow> number \<Rightarrow> (string \<rightharpoonup> number) option \<Rightarrow>
     error + Bond list" where
  "calculateBonds crystal scaleFactor minCut maxCut pairOverrides =
    outerLoop crystal scaleFactor minCut maxCut pairOverrides
      [0 ..< length (sites crystal)] []"

section \<open>Auxiliary notions for the statements\<close>


text \<open>The order of the pair loop on bonds: \<open>atom1\<close> ascending, then \<open>atom2\<close> ascending.\<close>

definition bond_before :: "Bond \<Rightarrow> Bond \<Rightarrow> bool" where
  "bond_before b b' = (atom1 b < atom1 b' \<or> (atom1 b = atom1 b' \<and> atom2 b < atom2 b'))"

text \<open>
  What the loop body establishes for a bond it pushes: the pair is in index order and in
  range, the cutoff is the pair's cutoff, the distance is the periodic distance of the
  two sites, and the distance is within the cutoff.
\<close>

definition emitted ::
  "CrystalStructure \<Rightarrow> number \<Rightarrow> number \<Rightarrow> number \<Rightarrow> (string \<rightharpoonup> number) option \<Rightarrow> Bond \<Rightarrow> bool" where
  "emitted crystal scaleFactor minCut maxCut pairOverrides b =
    (atom1 b < atom2 b \<and> atom2 b < length (sites crystal) \<and>
     cutoff b = pairCutoff scaleFactor minCut maxCut pairOverrides
                  (element (sites crystal ! atom1 b)) (element (sites crystal ! atom2 b)) \<and>
     periodicDistance (frac_site (sites crystal ! atom1 b)) (frac_site (sites crystal ! atom2 b))
         (matrix (lattice crystal)) = Inr (distance b) \<and>
     distance b \<le> cutoff b)"

text \<open>
  The key \<^verbatim>\<open>`${element_i}-${element_j}`\<close> of the sites \<open>i\<close> and \<open>j\<close> of a structure.
\<close>

definition pairKey :: "CrystalStructure \<Rightarrow> nat \<Rightarrow> nat \<Rightarrow> string" where
  "pairKey crystal i j = element (sites crystal ! i) @ ''-'' @ element (sites crystal ! j)"

text \<open>
  Two outcomes of \<open>calculateBonds\<close> compared by their number of bonds: both throw the
  same error, or both return and the first returns at most as many bonds as the second.
\<close>

definition count_le :: "error + Bond list \<Rightarrow> error + Bond list \<Rightarrow> bool" where
  "count_le r1 r2 =
    (case r1 of
       Inl e1 \<Rightarrow> (case r2 of Inl e2 \<Rightarrow> e1 = e2 | Inr b2 \<Rightarrow> False)
     | Inr b1 \<Rightarrow> (case r2 of Inl e2 \<Rightarrow> False | Inr b2 \<Rightarrow> length b1 \<le> length b2))"

subsection \<open>Example structures\<close>

text \<open>
  A cubic cell of edge 5 with hydrogen sites on the first axis, at fractional positions
  \<open>0\<close>, \<open>1/10\<close> and \<open>2/10\<close> (neighbours are 0.5 apart).
\<close>

definition cubic5 :: Lattice where
  "cubic5 = \<lparr>matrix = [[Num 5, Num 0, Num 0], [Num 0, Num 5, Num 0], [Num 0, Num 0, Num 5]],
     a_param = Num 5, b_param = Num 5, c_param = Num 5,
     alpha_param = Num 90, beta_param = Num 90, gamma_param = Num 90\<rparr>"

definition hydrogenAt :: "real \<Rightarrow> Site" where
  "hydrogenAt x = \<lparr>element = ''H'', frac_site = [Num x, Num 0, Num 0], occupancy = Num 1,
     label = None, disorder_group = None, oxidation_state = None, cartesian = None\<rparr>"

definition hydrogenChain :: CrystalStructure where
  "hydrogenChain = \<lparr>lattice = cubic5, pbc = [True, True, True],
     sites = [hydrogenAt 0, hydrogenAt (1/10), hydrogenAt (2/10)]\<rparr>"

definition hydrogenPair :: CrystalStructure where
  "hydrogenPair = \<lparr>lattice = cubic5, pbc = [True, True, True],
     sites = [hydrogenAt 0, hydrogenAt (1/10)]\<rparr>"

section \<open>Properties of the lattice construction and of the periodic geometry\<close>

lemma idx3: "idx [a, b, c] 0 = a" "idx [a, b, c] (Suc 0) = b" "idx [a, b, c] 2 = c"
  by (simp_all add: idx_def)



















section \<open>Properties of the bonding engine\<close>

subsection \<open>Loop invariants, totality and the cutoff of a pair\<close>

lemma periodicDistance_short: "length M < 3 \<Longrightarrow> periodicDistance f1 f2 M = Inl TypeError"
  by (simp add: periodicDistance_def Let_def)

lemma periodicDistance_returns: "3 \<le> length M \<Longrightarrow> \<exists>d. periodicDistance f1 f2 M = Inr d"
  by (simp add: periodicDistance_def Let_def)

lemma bondStep_emitted:
  assumes "bondStep c s mn mx po i j bonds = Inr out" "i < j" "j < length (sites c)"
  shows "out = bonds \<or> (\<exists>b. out = bonds @ [b] \<and> atom1 b = i \<and> atom2 b = j \<and> emitted c s mn mx po b)"
  using assms
  by (auto simp: bondStep_def Let_def emitted_def split: sum.splits if_splits)

lemma innerLoop_inv:
  assumes "innerLoop c s mn mx po i js bonds = Inr out"
    "sorted_wrt (<) js" "\<forall>j\<in>set js. i < j \<and> j < length (sites c)"
  shows "\<exists>new. out = bonds @ new \<and>
           (\<forall>b\<in>set new. atom1 b = i \<and> atom2 b \<in> set js \<and> emitted c s mn mx po b) \<and>
           sorted_wrt (<) (map atom2 new)"
  using assms
proof (induction js arbitrary: bonds)
  case Nil
  then show ?case by simp
next
  case (Cons j js)
  from Cons.prems(1) obtain mid where
    step: "bondStep c s mn mx po i j bonds = Inr mid" and
    rest: "innerLoop c s mn mx po i js mid = Inr out"
    by (auto split: sum.splits)
  from Cons.prems have ij: "i < j" "j < length (sites c)" and
    srt: "sorted_wrt (<) js" "\<forall>k\<in>set js. i < k \<and> k < length (sites c)" and
    above: "\<forall>k\<in>set js. j < k"
    by auto
  from Cons.IH[OF rest srt] obtain new where
    new: "out = mid @ new"
      "\<forall>b\<in>set new. atom1 b = i \<and> atom2 b \<in> set js \<and> emitted c s mn mx po b"
      "sorted_wrt (<) (map atom2 new)"
    by blast
  from bondStep_emitted[OF step ij]
  consider "mid = bonds" |
    b where "mid = bonds @ [b]" "atom1 b = i" "atom2 b = j" "emitted c s mn mx po b"
    by blast
  then show ?case
  proof cases
    case 1
    with new show ?thesis by auto
  next
    case 2
    have "out = bonds @ (b # new)" using 2(1) new(1) by simp
    moreover have "\<forall>b'\<in>set (b # new). atom1 b' = i \<and> atom2 b' \<in> set (j # js) \<and> emitted c s mn mx po b'"
      using 2 new(2) by auto
    moreover have "sorted_wrt (<) (map atom2 (b # new))"
      using 2(3) new(2,3) above by auto
    ultimately show ?thesis by blast
  qed
qed

lemma outerLoop_inv:
  assumes "outerLoop c s mn mx po is bonds = Inr out" "sorted_wrt (<) is"
  shows "\<exists>new. out = bonds @ new \<and>
           (\<forall>b\<in>set new. atom1 b \<in> set is \<and> emitted c s mn mx po b) \<and>
           sorted_wrt bond_before new"
  using assms
proof (induction "is" arbitrary: bonds)
  case Nil
  then show ?case by simp
next
  case (Cons i "is")
  from Cons.prems(1) obtain mid where
    inner: "innerLoop c s mn mx po i [i + 1 ..< length (sites c)] bonds = Inr mid" and
    rest: "outerLoop c s mn mx po is mid = Inr out"
    by (auto split: sum.splits)
  from Cons.prems(2) have srt: "sorted_wrt (<) is" and above: "\<forall>k\<in>set is. i < k"
    by auto
  from innerLoop_inv[OF inner] obtain row where
    row: "mid = bonds @ row"
      "\<forall>b\<in>set row. atom1 b = i \<and> atom2 b \<in> set [i + 1 ..< length (sites c)] \<and> emitted c s mn mx po b"
      "sorted_wrt (<) (map atom2 row)"
    by auto
  from Cons.IH[OF rest srt] obtain new where
    new: "out = mid @ new"
      "\<forall>b\<in>set new. atom1 b \<in> set is \<and> emitted c s mn mx po b"
      "sorted_wrt bond_before new"
    by blast
  have "out = bonds @ (row @ new)" using row(1) new(1) by simp
  moreover have "\<forall>b\<in>set (row @ new). atom1 b \<in> set (i # is) \<and> emitted c s mn mx po b"
    using row(2) new(2) by auto
  moreover have "sorted_wrt bond_before (row @ new)"
  proof -
    have "sorted_wrt bond_before row"
      using row(2,3) by (auto simp: sorted_wrt_map bond_before_def elim!: sorted_wrt_mono_rel[rotated])
    moreover have "\<forall>b\<in>set row. \<forall>b'\<in>set new. bond_before b b'"
      using row(2) new(2) above by (auto simp: bond_before_def)
    ultimately show ?thesis using new(3) by (simp add: sorted_wrt_append)
  qed
  ultimately show ?case by blast
qed

lemma calculateBonds_inv:
  assumes "calculateBonds c s mn mx po = Inr bonds"
  shows "(\<forall>b\<in>set bonds. emitted c s mn mx po b) \<and> sorted_wrt bond_before bonds"
  using outerLoop_inv[of c s mn mx po "[0 ..< length (sites c)]" "[]" bonds] assms
  by (auto simp: calculateBonds_def)

lemma bondStep_returns:
  "3 \<le> length (matrix (lattice c)) \<Longrightarrow> \<exists>out. bondStep c s mn mx po i j bonds = Inr out"
  using periodicDistance_returns[of "matrix (lattice c)"
      "frac_site (sites c ! i)" "frac_site (sites c ! j)"]
  by (auto simp: bondStep_def Let_def)

lemma innerLoop_returns:
  assumes "3 \<le> length (matrix (lattice c))"
  shows "\<exists>out. innerLoop c s mn mx po i js bonds = Inr out"
proof (induction js arbitrary: bonds)
  case Nil
  show ?case by simp
next
  case (Cons j js)
  from bondStep_returns[OF assms] obtain mid where
    "bondStep c s mn mx po i j bonds = Inr mid" by blast
  with Cons.IH[of mid] show ?case by simp
qed

lemma outerLoop_returns:
  assumes "3 \<le> length (matrix (lattice c))"
  shows "\<exists>out. outerLoop c s mn mx po is bonds = Inr out"
proof (induction "is" arbitrary: bonds)
  case Nil
  show ?case by simp
next
  case (Cons i "is")
  from innerLoop_returns[OF assms] obtain mid where
    "innerLoop c s mn mx po i [i + 1 ..< length (sites c)] bonds = Inr mid" by blast
  with Cons.IH[of mid] show ?case by simp
qed

lemma calculateBonds_returns:
  "3 \<le> length (matrix (lattice c)) \<Longrightarrow> \<exists>bonds. calculateBonds c s mn mx po = Inr bonds"
  by (simp add: calculateBonds_def outerLoop_returns)

lemma COVALENT_RADII_positive:
  assumes "COVALENT_RADII e = Some v"
  shows "\<exists>r. v = Num r \<and> 0 < r"
proof -
  have "\<forall>p \<in> set COVALENT_RADII_entries. case snd p of Num r \<Rightarrow> 0 < r | NaN \<Rightarrow> False"
    by (simp add: COVALENT_RADII_entries_def)
  moreover have "(e, v) \<in> set COVALENT_RADII_entries"
    using assms by (simp add: COVALENT_RADII_def map_of_SomeD)
  ultimately have "case v of Num r \<Rightarrow> 0 < r | NaN \<Rightarrow> False" by fastforce
  then show ?thesis by (cases v) simp_all
qed

lemma radius_positive: "\<exists>r. or_num (COVALENT_RADII e) (Num 1.0) = Num r \<and> 0 < r"
proof (cases "COVALENT_RADII e")
  case None
  then show ?thesis by (simp add: or_num_def)
next
  case (Some v)
  with COVALENT_RADII_positive[OF Some] show ?thesis by (auto simp: or_num_def)
qed

lemma radiusCutoff_eq:
  assumes "\<not> overrideHit po (e1 @ ''-'' @ e2) (e2 @ ''-'' @ e1)"
  shows "\<exists>r. 0 < r \<and> (\<forall>s mn mx. pairCutoff s mn mx po e1 e2 = Math_max mn (Math_min mx (s * Num r)))"
proof -
  obtain r1 r2 where r: "or_num (COVALENT_RADII e1) (Num 1.0) = Num r1" "0 < r1"
      "or_num (COVALENT_RADII e2) (Num 1.0) = Num r2" "0 < r2"
    using radius_positive by blast
  have "\<forall>s mn mx. pairCutoff s mn mx po e1 e2 = Math_max mn (Math_min mx (s * Num (r1 + r2)))"
    using assms r by (simp add: pairCutoff_def Let_def)
  moreover have "0 < r1 + r2" using r by simp
  ultimately show ?thesis by blast
qed

lemma overrideCutoff_eq:
  assumes "overrideHit po (e1 @ ''-'' @ e2) (e2 @ ''-'' @ e1)"
  shows "pairCutoff s1 mn mx po e1 e2 = pairCutoff s2 mn mx po e1 e2"
  using assms by (simp add: pairCutoff_def Let_def)

lemma pairCutoff_mono:
  assumes "s1 \<le> s2" "d \<le> pairCutoff (Num s1) mn mx po e1 e2"
  shows "d \<le> pairCutoff (Num s2) mn mx po e1 e2"
proof (cases "overrideHit po (e1 @ ''-'' @ e2) (e2 @ ''-'' @ e1)")
  case True
  from overrideCutoff_eq[OF True, of "Num s1" mn mx "Num s2"] assms(2) show ?thesis by simp
next
  case False
  from radiusCutoff_eq[OF False] obtain r where r: "0 < r"
    "\<And>s. pairCutoff s mn mx po e1 e2 = Math_max mn (Math_min mx (s * Num r))"
    by blast
  have "s1 * r \<le> s2 * r" using assms(1) r(1) by simp
  then have "max a (min b (s1 * r)) \<le> max a (min b (s2 * r))" for a b :: real
    by linarith
  then show ?thesis
    using assms(2) unfolding r(2)
    by (cases d; cases mn; cases mx) (fastforce elim: order_trans)+
qed

lemma number_le_trans: "(a::number) \<le> Num x \<Longrightarrow> x \<le> y \<Longrightarrow> a \<le> Num y"
  by (cases a) simp_all

text \<open>
  An entry that is a non-zero real is used as the cutoff as it is, the entry under
  \<^verbatim>\<open>pairKey1\<close> first.
\<close>

lemma override_first_key:
  "po (e1 @ ''-'' @ e2) = Some (Num v) \<Longrightarrow> v \<noteq> 0 \<Longrightarrow>
   pairCutoff s mn mx (Some po) e1 e2 = Num v"
  by (simp add: pairCutoff_def overrideHit_def or_else_def or_num_def Let_def)

lemma override_second_key:
  "\<not> truthy (po (e1 @ ''-'' @ e2)) \<Longrightarrow> po (e2 @ ''-'' @ e1) = Some (Num v) \<Longrightarrow> v \<noteq> 0 \<Longrightarrow>
   pairCutoff s mn mx (Some po) e1 e2 = Num v"
  by (simp add: pairCutoff_def overrideHit_def or_else_def or_num_def Let_def)

subsection \<open>Evaluation on the example structures\<close>

lemma radius_H: "COVALENT_RADII ''H'' = Some (Num 0.32)"
  by (simp add: COVALENT_RADII_def COVALENT_RADII_entries_def)

lemma element_H: "element (hydrogenAt x) = ''H''"
  by (simp add: hydrogenAt_def)

lemma dist_H: "periodicDistance (frac_site (hydrogenAt x)) (frac_site (hydrogenAt y)) (matrix cubic5)
   = Inr (Num (\<bar>(y - x - of_int \<lfloor>y - x + 1/2\<rfloor>) * 5\<bar>))"
  by (simp add: periodicDistance_def minimumImage_def idx3 Let_def hydrogenAt_def cubic5_def)

lemma cut_HH_none:
  "pairCutoff (Num s) (Num mn) (Num mx) None ''H'' ''H'' = Num (max mn (min mx (s * (16/25))))"
  by (simp add: pairCutoff_def overrideHit_def Let_def radius_H or_num_def)

lemma cut_HH_zero:
  "pairCutoff (Num s) (Num mn) (Num mx) (Some [''H-H'' \<mapsto> Num 0]) ''H'' ''H''
     = Num (max mn (min mx (s * (16/25))))"
  by (simp add: pairCutoff_def overrideHit_def or_else_def Let_def radius_H or_num_def)

lemma chain_bonds:
  "calculateBonds hydrogenChain (Num 1.1) (Num 0.7) (Num 3.2) None
     = Inr [\<lparr>atom1 = 0, atom2 = 1, distance = Num (1/2), cutoff = Num 0.704\<rparr>,
            \<lparr>atom1 = 1, atom2 = 2, distance = Num (1/2), cutoff = Num 0.704\<rparr>]"
  by (simp add: calculateBonds_def hydrogenChain_def bondStep_def Let_def dist_H cut_HH_none
        element_H)

lemma chain_bonds_wide:
  "calculateBonds hydrogenChain (Num 2) (Num 0.7) (Num 3.2) None
     = Inr [\<lparr>atom1 = 0, atom2 = 1, distance = Num (1/2), cutoff = Num 1.28\<rparr>,
            \<lparr>atom1 = 0, atom2 = 2, distance = Num 1, cutoff = Num 1.28\<rparr>,
            \<lparr>atom1 = 1, atom2 = 2, distance = Num (1/2), cutoff = Num 1.28\<rparr>]"
  by (simp add: calculateBonds_def hydrogenChain_def bondStep_def Let_def dist_H cut_HH_none
        element_H)

lemma pair_bonds_zero_scale:
  "calculateBonds hydrogenPair (Num 0) (Num 0.7) (Num 3.2) None
     = Inr [\<lparr>atom1 = 0, atom2 = 1, distance = Num (1/2), cutoff = Num 0.7\<rparr>]"
  by (simp add: calculateBonds_def hydrogenPair_def bondStep_def Let_def dist_H cut_HH_none
        element_H)

subsection \<open>Non-positive scale factors\<close>

text \<open>
  C1, as stated: a zero or negative scale factor gives no bonds, whatever the other
  arguments. It fails for two hydrogen sites 0.5 apart with scale factor \<open>0\<close> and the
  limits 0.7 and 3.2: the clamp raises the cutoff \<open>0\<close> to \<open>minCut = 0.7\<close>.
\<close>

theorem calculateBonds_nonpositive_scale_counterexample:
  "(0::real) \<le> 0 \<and>
   calculateBonds hydrogenPair (Num 0) (Num 0.7) (Num 3.2) None
     = Inr [\<lparr>atom1 = 0, atom2 = 1, distance = Num (1/2), cutoff = Num 0.7\<rparr>] \<and>
   calculateBonds hydrogenPair (Num 0) (Num 0.7) (Num 3.2) None \<noteq> Inr []"
  using pair_bonds_zero_scale by simp

text \<open>
  C1, amended: if the scale factor is zero or negative, the lattice matrix has its three
  rows, no pair of sites has an override that applies, and no two sites are within the
  periodic distance \<open>max minCut 0\<close> of each other, then \<open>calculateBonds\<close> returns the
  empty sequence.
\<close>

theorem calculateBonds_nonpositive_scale:
  assumes "s \<le> 0"
    and rows: "3 \<le> length (matrix (lattice c))"
    and no_override: "\<And>i j. i < j \<Longrightarrow> j < length (sites c) \<Longrightarrow>
        \<not> overrideHit po (pairKey c i j) (pairKey c j i)"
    and apart: "\<And>i j d. i < j \<Longrightarrow> j < length (sites c) \<Longrightarrow>
        periodicDistance (frac_site (sites c ! i)) (frac_site (sites c ! j))
          (matrix (lattice c)) = Inr d \<Longrightarrow> \<not> d \<le> Num (max mn 0)"
  shows "calculateBonds c (Num s) (Num mn) (Num mx) po = Inr []"
proof -
  from calculateBonds_returns[OF rows] obtain bonds where
    bonds: "calculateBonds c (Num s) (Num mn) (Num mx) po = Inr bonds" by blast
  have "b \<notin> set bonds" for b
  proof
    assume "b \<in> set bonds"
    with calculateBonds_inv[OF bonds] have e: "emitted c (Num s) (Num mn) (Num mx) po b"
      by blast
    then have ij: "atom1 b < atom2 b" "atom2 b < length (sites c)"
      and dist: "periodicDistance (frac_site (sites c ! atom1 b)) (frac_site (sites c ! atom2 b))
          (matrix (lattice c)) = Inr (distance b)"
      and cut: "cutoff b = pairCutoff (Num s) (Num mn) (Num mx) po
          (element (sites c ! atom1 b)) (element (sites c ! atom2 b))"
      and within: "distance b \<le> cutoff b"
      unfolding emitted_def by blast+
    from no_override[OF ij] radiusCutoff_eq obtain r where r: "0 < r"
      "cutoff b = Math_max (Num mn) (Math_min (Num mx) (Num s * Num r))"
      unfolding pairKey_def cut by blast
    have "s * r \<le> 0" using assms(1) r(1) by (simp add: mult_le_0_iff)
    then have "max mn (min mx (s * r)) \<le> max mn 0" by linarith
    with within r(2) have "distance b \<le> Num (max mn 0)"
      by (simp add: number_le_trans)
    with apart[OF ij dist] show False by contradiction
  qed
  then have "bonds = []" by (cases bonds) auto
  with bonds show ?thesis by simp
qed

theorem calculateBonds_nonpositive_scale_witness:
  "(- 1 :: real) \<le> 0 \<and> 3 \<le> length (matrix (lattice hydrogenChain)) \<and>
   calculateBonds hydrogenChain (Num (- 1)) (Num 0.3) (Num 3.2) None = Inr []"
proof -
  have neg: "(- 1 :: real) \<le> 0" by simp
  have rows: "3 \<le> length (matrix (lattice hydrogenChain))"
    by (simp add: hydrogenChain_def cubic5_def)
  have no_override: "\<not> overrideHit None (pairKey hydrogenChain i j) (pairKey hydrogenChain j i)"
    for i j by (simp add: overrideHit_def)
  have apart: "\<not> d \<le> Num (max 0.3 0)"
    if "i < j" "j < length (sites hydrogenChain)"
      "periodicDistance (frac_site (sites hydrogenChain ! i)) (frac_site (sites hydrogenChain ! j))
          (matrix (lattice hydrogenChain)) = Inr d" for i j d
  proof -
    from that(1,2) consider "i = 0 \<and> j = 1" | "i = 0 \<and> j = 2" | "i = 1 \<and> j = 2"
      by (auto simp: hydrogenChain_def less_Suc_eq)
    then show ?thesis
      using that(3) by cases (auto simp: hydrogenChain_def dist_H)
  qed
  from calculateBonds_nonpositive_scale[of "- 1" hydrogenChain None "0.3" "3.2", OF neg rows no_override apart] neg rows
  show ?thesis by simp
qed

subsection \<open>Pair overrides\<close>

text \<open>
  C2. An entry of \<^verbatim>\<open>pairOverrides\<close> for the pair is to be used as its cutoff. With the
  entry \<^verbatim>\<open>"H-H": 0\<close> the test \<^verbatim>\<open>pairOverrides[pairKey1] || pairOverrides[pairKey2]\<close> is
  falsy, so the code computes the clamped radius sum \<open>1.1 * 0.64 = 0.704\<close> instead of the
  cutoff \<open>0\<close>, and bonds two hydrogen sites 0.5 apart.
\<close>

theorem zero_override_ignored:
  "pairCutoff (Num 1.1) (Num 0.7) (Num 3.2) (Some [''H-H'' \<mapsto> Num 0]) ''H'' ''H'' = Num 0.704 \<and>
   calculateBonds hydrogenPair (Num 1.1) (Num 0.7) (Num 3.2) (Some [''H-H'' \<mapsto> Num 0])
     = Inr [\<lparr>atom1 = 0, atom2 = 1, distance = Num (1/2), cutoff = Num 0.704\<rparr>]"
  by (simp add: calculateBonds_def hydrogenPair_def bondStep_def Let_def dist_H cut_HH_zero
        element_H)

subsection \<open>Monotonicity in the scale factor\<close>

lemma count_le_Inr: "count_le (Inr b1) (Inr b2) = (length b1 \<le> length b2)"
  by (simp add: count_le_def)

lemma bondStep_mono:
  assumes "s1 \<le> s2" "length b1 \<le> length b2"
  shows "count_le (bondStep c (Num s1) mn mx po i j b1) (bondStep c (Num s2) mn mx po i j b2)"
proof (cases "periodicDistance (frac_site (sites c ! i)) (frac_site (sites c ! j)) (matrix (lattice c))")
  case (Inl e)
  then show ?thesis by (simp add: bondStep_def Let_def count_le_def)
next
  case (Inr d)
  let ?cut = "\<lambda>s. pairCutoff (Num s) mn mx po (element (sites c ! i)) (element (sites c ! j))"
  have "d \<le> ?cut s1 \<Longrightarrow> d \<le> ?cut s2"
    using pairCutoff_mono[OF assms(1)] by blast
  then show ?thesis
    using Inr assms(2) by (auto simp: bondStep_def Let_def count_le_def)
qed

lemma innerLoop_mono:
  assumes "s1 \<le> s2"
  shows "length b1 \<le> length b2 \<Longrightarrow>
    count_le (innerLoop c (Num s1) mn mx po i js b1) (innerLoop c (Num s2) mn mx po i js b2)"
proof (induction js arbitrary: b1 b2)
  case Nil
  then show ?case by (simp add: count_le_def)
next
  case (Cons j js)
  from bondStep_mono[OF assms Cons.prems, of c mn mx po i j]
  show ?case
    by (cases "bondStep c (Num s1) mn mx po i j b1"; cases "bondStep c (Num s2) mn mx po i j b2")
       (simp_all add: count_le_def Cons.IH[unfolded count_le_def])
qed

lemma outerLoop_mono:
  assumes "s1 \<le> s2"
  shows "length b1 \<le> length b2 \<Longrightarrow>
    count_le (outerLoop c (Num s1) mn mx po is b1) (outerLoop c (Num s2) mn mx po is b2)"
proof (induction "is" arbitrary: b1 b2)
  case Nil
  then show ?case by (simp add: count_le_def)
next
  case (Cons i "is")
  from innerLoop_mono[OF assms Cons.prems, of c mn mx po i "[i + 1 ..< length (sites c)]"]
  show ?case
    by (cases "innerLoop c (Num s1) mn mx po i [i + 1 ..< length (sites c)] b1";
        cases "innerLoop c (Num s2) mn mx po i [i + 1 ..< length (sites c)] b2")
       (simp_all add: count_le_def Cons.IH[unfolded count_le_def])
qed

text \<open>
  C5. For scale factors \<open>s1 \<le> s2\<close> and all other arguments fixed, \<open>calculateBonds\<close>
  with \<open>s2\<close> returns at least as many bonds as with \<open>s1\<close>; where the lattice matrix
  lacks a row both calls throw the same TypeError.
\<close>

theorem calculateBonds_scale_monotone:
  assumes "s1 \<le> s2"
  shows "(\<exists>e. calculateBonds c (Num s1) mn mx po = Inl e \<and>
              calculateBonds c (Num s2) mn mx po = Inl e) \<or>
         (\<exists>bonds1 bonds2. calculateBonds c (Num s1) mn mx po = Inr bonds1 \<and>
              calculateBonds c (Num s2) mn mx po = Inr bonds2 \<and>
              length bonds1 \<le> length bonds2)"
  using outerLoop_mono[OF assms, of "[]" "[]" c mn mx po "[0 ..< length (sites c)]"]
  by (auto simp: calculateBonds_def count_le_def split: sum.splits)

theorem calculateBonds_scale_monotone_witness:
  "(1.1 :: real) \<le> 2 \<and>
   calculateBonds hydrogenChain (Num 1.1) (Num 0.7) (Num 3.2) None
     = Inr [\<lparr>atom1 = 0, atom2 = 1, distance = Num (1/2), cutoff = Num 0.704\<rparr>,
            \<lparr>atom1 = 1, atom2 = 2, distance = Num (1/2), cutoff = Num 0.704\<rparr>] \<and>
   calculateBonds hydrogenChain (Num 2) (Num 0.7) (Num 3.2) None
     = Inr [\<lparr>atom1 = 0, atom2 = 1, distance = Num (1/2), cutoff = Num 1.28\<rparr>,
            \<lparr>atom1 = 0, atom2 = 2, distance = Num 1, cutoff = Num 1.28\<rparr>,
            \<lparr>atom1 = 1, atom2 = 2, distance = Num (1/2), cutoff = Num 1.28\<rparr>] \<and>
   length [\<lparr>atom1 = 0, atom2 = 1, distance = Num (1/2), cutoff = Num 0.704\<rparr>,
            \<lparr>atom1 = 1, atom2 = 2, distance = Num (1/2), cutoff = Num 0.704\<rparr>]
     \<le> length [\<lparr>atom1 = 0, atom2 = 1, distance = Num (1/2), cutoff = Num 1.28\<rparr>,
            \<lparr>atom1 = 0, atom2 = 2, distance = Num 1, cutoff = Num 1.28\<rparr>,
            \<lparr>atom1 = 1, atom2 = 2, distance = Num (1/2), cutoff = Num 1.28\<rparr>]"
proof -
  have le: "(1.1 :: real) \<le> 2" by simp
  from calculateBonds_scale_monotone[OF le, of hydrogenChain "Num 0.7" "Num 3.2" None] chain_bonds chain_bonds_wide
  show ?thesis by simp
qed

subsection \<open>Periodic-boundary flags\<close>

lemma bondStep_cong:
  "lattice c1 = lattice c2 \<Longrightarrow> sites c1 = sites c2 \<Longrightarrow>
   bondStep c1 s mn mx po i j bonds = bondStep c2 s mn mx po i j bonds"
  by (simp add: bondStep_def)

lemma innerLoop_cong:
  assumes "lattice c1 = lattice c2" "sites c1 = sites c2"
  shows "innerLoop c1 s mn mx po i js bonds = innerLoop c2 s mn mx po i js bonds"
proof (induction js arbitrary: bonds)
  case Nil
  show ?case by simp
next
  case (Cons j js)
  have "bondStep c1 s mn mx po i j bonds = bondStep c2 s mn mx po i j bonds"
    by (rule bondStep_cong[OF assms])
  with Cons.IH show ?case by (simp split: sum.splits)
qed

lemma outerLoop_cong:
  assumes "lattice c1 = lattice c2" "sites c1 = sites c2"
  shows "outerLoop c1 s mn mx po is bonds = outerLoop c2 s mn mx po is bonds"
proof (induction "is" arbitrary: bonds)
  case Nil
  show ?case by simp
next
  case (Cons i "is")
  have "innerLoop c1 s mn mx po i [i + 1 ..< length (sites c1)] bonds
      = innerLoop c2 s mn mx po i [i + 1 ..< length (sites c2)] bonds"
    using innerLoop_cong[OF assms] assms(2) by simp
  with Cons.IH show ?case by (simp split: sum.splits)
qed

text \<open>
  C6. Two structures with the same lattice and the same sites, whatever their \<open>pbc\<close>
  flags, have the same result of \<open>calculateBonds\<close> under every bonding configuration.
\<close>

theorem calculateBonds_ignores_pbc:
  "lattice c1 = lattice c2 \<Longrightarrow> sites c1 = sites c2 \<Longrightarrow>
   calculateBonds c1 s mn mx po = calculateBonds c2 s mn mx po"
  using outerLoop_cong[of c1 c2 s mn mx po "[0 ..< length (sites c1)]" "[]"]
  by (simp add: calculateBonds_def)

theorem calculateBonds_ignores_pbc_witness:
  "lattice (hydrogenChain\<lparr>pbc := [False, True, False]\<rparr>) = lattice hydrogenChain \<and>
   sites (hydrogenChain\<lparr>pbc := [False, True, False]\<rparr>) = sites hydrogenChain \<and>
   pbc (hydrogenChain\<lparr>pbc := [False, True, False]\<rparr>) \<noteq> pbc hydrogenChain \<and>
   calculateBonds (hydrogenChain\<lparr>pbc := [False, True, False]\<rparr>) (Num 1.1) (Num 0.7) (Num 3.2) None
     = calculateBonds hydrogenChain (Num 1.1) (Num 0.7) (Num 3.2) None"
proof -
  have same: "lattice (hydrogenChain\<lparr>pbc := [False, True, False]\<rparr>) = lattice hydrogenChain"
    "sites (hydrogenChain\<lparr>pbc := [False, True, False]\<rparr>) = sites hydrogenChain"
    by simp_all
  have differ: "pbc (hydrogenChain\<lparr>pbc := [False, True, False]\<rparr>) \<noteq> pbc hydrogenChain"
    by (simp add: hydrogenChain_def)
  show ?thesis
    using same differ calculateBonds_ignores_pbc[OF same] by blast
qed

subsection \<open>Order of the returned bonds\<close>

text \<open>
  C9. Every bond returned by \<open>calculateBonds\<close> has \<open>atom1 < atom2\<close>, and the returned
  sequence is strictly ascending in the lexicographic order of \<open>(atom1, atom2)\<close>. (The
  call returns whenever the lattice matrix has its three rows, by
  \<open>calculateBonds_returns\<close>.)
\<close>

theorem calculateBonds_ordered:
  assumes "calculateBonds c s mn mx po = Inr bonds"
  shows "(\<forall>b\<in>set bonds. atom1 b < atom2 b) \<and> sorted_wrt bond_before bonds"
  using calculateBonds_inv[OF assms] by (auto simp: emitted_def)

theorem calculateBonds_ordered_witness:
  "calculateBonds hydrogenChain (Num 1.1) (Num 0.7) (Num 3.2) None
     = Inr [\<lparr>atom1 = 0, atom2 = 1, distance = Num (1/2), cutoff = Num 0.704\<rparr>,
            \<lparr>atom1 = 1, atom2 = 2, distance = Num (1/2), cutoff = Num 0.704\<rparr>] \<and>
   bond_before \<lparr>atom1 = 0, atom2 = 1, distance = Num (1/2), cutoff = Num 0.704\<rparr>
               \<lparr>atom1 = 1, atom2 = 2, distance = Num (1/2), cutoff = Num 0.704\<rparr>"
  using calculateBonds_ordered[OF chain_bonds] chain_bonds by simp

subsection \<open>Inverted limits\<close>



end
